theory Spec2Isabelle
  imports Complex_Main
begin

section \<open>The Ollama integration service\<close>

text \<open>
  A shallow embedding of \<^verbatim>\<open>backend/services/ollama_service.py\<close>. Python exceptions are
  values of the type \<open>exn\<close> and a call that may raise returns \<open>exn + 'a\<close>. The two
  effects of the service on its environment, calling \<^verbatim>\<open>session.request\<close> and calling
  \<^verbatim>\<open>time.sleep\<close>, are logged in a \<open>world\<close> that is passed through every call. The
  answers of the model server are given by a function from the number of the HTTP attempt
  (counted over the whole run) to what \<^verbatim>\<open>session.request\<close> does on that attempt.
  Strings are sequences of code points below 256. Readings of the clock
  (\<^verbatim>\<open>datetime.now()\<close>) are arguments, in microseconds.
\<close>

subsection \<open>Exceptions\<close>

datatype exn =
    OllamaConnectionError string
  | OllamaTimeoutError string
  | TypeError string
  | AttributeError string
  | OverflowError string
  | OtherException string

text \<open>\<^verbatim>\<open>str(e)\<close>\<close>

fun exn_str :: "exn \<Rightarrow> string" where
  "exn_str (OllamaConnectionError m) = m"
| "exn_str (OllamaTimeoutError m) = m"
| "exn_str (TypeError m) = m"
| "exn_str (AttributeError m) = m"
| "exn_str (OverflowError m) = m"
| "exn_str (OtherException m) = m"


text \<open>\<^verbatim>\<open>isinstance(e, (OllamaConnectionError, OllamaTimeoutError))\<close>\<close>

fun is_ollama_error :: "exn \<Rightarrow> bool" where
  "is_ollama_error (OllamaConnectionError m) = True"
| "is_ollama_error (OllamaTimeoutError m) = True"
| "is_ollama_error e = False"

subsection \<open>Strings\<close>

definition digit_char :: "nat \<Rightarrow> char" where
  "digit_char d = char_of (48 + d)"

fun str_nat :: "nat \<Rightarrow> string" where
  "str_nat n = (if n < 10 then [digit_char n] else str_nat (n div 10) @ [digit_char (n mod 10)])"

declare str_nat.simps [simp del]

text \<open>\<^verbatim>\<open>str(n)\<close> of a Python int\<close>

definition str_int :: "int \<Rightarrow> string" where
  "str_int i = (if i < 0 then CHR ''-'' # str_nat (nat (- i)) else str_nat (nat i))"

text \<open>\<^verbatim>\<open>s.rstrip('/')\<close> and \<^verbatim>\<open>s.lstrip('/')\<close>\<close>

definition rstrip_slash :: "string \<Rightarrow> string" where
  "rstrip_slash s = rev (dropWhile (\<lambda>c. c = CHR ''/'') (rev s))"

definition lstrip_slash :: "string \<Rightarrow> string" where
  "lstrip_slash s = dropWhile (\<lambda>c. c = CHR ''/'') s"

text \<open>
  The characters that \<^verbatim>\<open>str.strip()\<close> removes, among the code points below 256:
  tab to carriage return, the four separators 28 to 31, the space, NEL and the
  no-break space.
\<close>

definition is_space :: "char \<Rightarrow> bool" where
  "is_space c = (let n = (of_char c :: nat) in
     (9 \<le> n \<and> n \<le> 13) \<or> (28 \<le> n \<and> n \<le> 32) \<or> n = 133 \<or> n = 160)"

definition strip :: "string \<Rightarrow> string" where
  "strip s = rev (dropWhile is_space (rev (dropWhile is_space s)))"

definition quoted :: "string \<Rightarrow> string" where
  "quoted s = CHR 0x27 # s @ [CHR 0x27]"

subsection \<open>JSON values as Python has them after \<^verbatim>\<open>response.json()\<close>\<close>

datatype json =
    JNull
  | JBool bool
  | JInt int
  | JFloat rat
  | JStr string
  | JArr "json list"
  | JObj "(string \<times> json) list"

text \<open>\<^verbatim>\<open>type(v).__name__\<close>\<close>

fun py_type_name :: "json \<Rightarrow> string" where
  "py_type_name JNull = ''NoneType''"
| "py_type_name (JBool b) = ''bool''"
| "py_type_name (JInt i) = ''int''"
| "py_type_name (JFloat q) = ''float''"
| "py_type_name (JStr s) = ''str''"
| "py_type_name (JArr xs) = ''list''"
| "py_type_name (JObj kvs) = ''dict''"

text \<open>The truth value of a Python object, as \<^verbatim>\<open>if v\<close> tests it.\<close>

fun truthy :: "json \<Rightarrow> bool" where
  "truthy JNull = False"
| "truthy (JBool b) = b"
| "truthy (JInt i) = (i \<noteq> 0)"
| "truthy (JFloat q) = (q \<noteq> 0)"
| "truthy (JStr s) = (s \<noteq> [])"
| "truthy (JArr xs) = (xs \<noteq> [])"
| "truthy (JObj kvs) = (kvs \<noteq> [])"

text \<open>
  \<^verbatim>\<open>v.get(key, default)\<close>: only a dict has the method; on any other value the
  attribute lookup raises.
\<close>

fun py_get :: "json \<Rightarrow> string \<Rightarrow> json \<Rightarrow> exn + json" where
  "py_get (JObj kvs) key dflt = Inr (case map_of kvs key of None \<Rightarrow> dflt | Some v \<Rightarrow> v)"
| "py_get v key dflt =
     Inl (AttributeError (quoted (py_type_name v) @ '' object has no attribute '' @ quoted ''get''))"

text \<open>\<^verbatim>\<open>v.strip()\<close>: only a str has the method.\<close>

fun py_strip :: "json \<Rightarrow> exn + string" where
  "py_strip (JStr s) = Inr (strip s)"
| "py_strip v =
     Inl (AttributeError (quoted (py_type_name v) @ '' object has no attribute '' @ quoted ''strip''))"

text \<open>\<^verbatim>\<open>for model in v\<close>: a list gives its elements, a str its characters, a dict its keys.\<close>

fun py_iter :: "json \<Rightarrow> exn + json list" where
  "py_iter (JArr xs) = Inr xs"
| "py_iter (JStr s) = Inr (map (\<lambda>c. JStr [c]) s)"
| "py_iter (JObj kvs) = Inr (map (\<lambda>kv. JStr (fst kv)) kvs)"
| "py_iter v = Inl (TypeError (quoted (py_type_name v) @ '' object is not iterable''))"

subsection \<open>Configuration, service state, requests and the world\<close>

text \<open>
  \<^verbatim>\<open>backend.config\<close> is not among the sources. The three attributes the service reads
  from its \<^verbatim>\<open>config\<close> object are the fields of this record; an attribute that holds
  \<^verbatim>\<open>None\<close> is \<open>None\<close>.
\<close>

record config =
  ollama_endpoint :: string
  default_model :: "string option"
  default_temperature :: "real option"

text \<open>
  A value of the \<^verbatim>\<open>options\<close> dict of a generation request or of the cache
  information. A Python float is written as the real number it denotes; the service
  passes these values on unchanged. \<open>PIsoformat t\<close> is the string that
  \<^verbatim>\<open>isoformat()\<close> gives for the time \<open>t\<close>.
\<close>

datatype pyval = PNone | PBool bool | PInt int | PFloat real | PStr string | PIsoformat int

record gen_payload =
  gen_model :: "string option"
  gen_prompt :: string
  gen_stream :: bool
  gen_options :: "(string \<times> pyval) list"

text \<open>The keyword arguments of \<^verbatim>\<open>_make_request\<close>; \<open>None\<close> is an absent key.\<close>

record kwargs =
  kw_json :: "gen_payload option"
  kw_timeout :: "int option"

text \<open>One call of \<^verbatim>\<open>session.request(method, url, **kwargs)\<close>.\<close>

record request =
  req_method :: string
  req_url :: string
  req_json :: "gen_payload option"
  req_timeout :: int

text \<open>
  A response: \<open>json_body\<close> is what \<^verbatim>\<open>response.json()\<close> does, \<open>Inl msg\<close> when it
  raises its decoding error with the message \<open>msg\<close>.
\<close>

record response =
  status_code :: int
  resp_text :: string
  json_body :: "string + json"

text \<open>
  What \<^verbatim>\<open>session.request\<close> does on one attempt. A \<^verbatim>\<open>ConnectTimeout\<close> is a
  \<open>RaisedTimeout\<close>, since the handler of \<^verbatim>\<open>Timeout\<close> comes first. \<open>RaisedOther msg\<close>
  is any other exception, with \<^verbatim>\<open>str(e) = msg\<close>.
\<close>

datatype outcome =
    Responded response
  | RaisedTimeout
  | RaisedConnectionError
  | RaisedOther string

text \<open>An entry of the models cache.\<close>

datatype size_mb =
    SizeZero
  | SizeRound1 rat

text \<open>
  \<open>SizeZero\<close> is the int \<^verbatim>\<open>0\<close>; \<open>SizeRound1 q\<close> stands for the float
  \<^verbatim>\<open>round(x, 1)\<close> where \<open>x\<close> is the float that the true division gave for the exact
  quotient \<open>q\<close>. The two float operations are not evaluated.
\<close>

record model_info =
  mi_name :: json
  mi_size :: json
  mi_modified_at :: json
  mi_digest :: json
  mi_size_mb :: size_mb

record service =
  endpoint :: string
  timeout :: int
  max_retries :: int
  cache_duration :: int
  models_cache :: "model_info list option"
  models_cache_time :: "int option"

record world =
  attempts :: "request list"
  sleeps :: "nat list"

text \<open>\<^verbatim>\<open>OllamaService.__init__\<close>\<close>

definition init_service :: "config \<Rightarrow> string option \<Rightarrow> int \<Rightarrow> int \<Rightarrow> int \<Rightarrow> service" where
  "init_service cfg ep tmo mr cd =
     \<lparr> endpoint = (case ep of None \<Rightarrow> ollama_endpoint cfg
                     | Some e \<Rightarrow> if e \<noteq> [] then e else ollama_endpoint cfg),
       timeout = tmo, max_retries = mr, cache_duration = cd,
       models_cache = None, models_cache_time = None \<rparr>"

subsection \<open>\<^verbatim>\<open>_make_request\<close>\<close>

text \<open>\<^verbatim>\<open>response.raise_for_status()\<close> raises \<^verbatim>\<open>HTTPError\<close> for a status from 400 to 599.\<close>

definition raises_for_status :: "response \<Rightarrow> bool" where
  "raises_for_status r = (400 \<le> status_code r \<and> status_code r < 600)"

text \<open>The end of the loop body: sleep unless this was the last attempt.\<close>

definition backoff :: "service \<Rightarrow> nat \<Rightarrow> world \<Rightarrow> world" where
  "backoff svc attempt w =
     (if int attempt < max_retries svc - 1
      then w\<lparr>sleeps := sleeps w @ [2 ^ attempt]\<rparr>
      else w)"

definition log_attempt :: "request \<Rightarrow> world \<Rightarrow> world" where
  "log_attempt rq w = w\<lparr>attempts := attempts w @ [rq]\<rparr>"

text \<open>
  The loop \<^verbatim>\<open>for attempt in range(self.max_retries)\<close>, over the attempts still to
  make, and the \<^verbatim>\<open>raise last_exception\<close> after it. Raising \<^verbatim>\<open>None\<close> is a
  \<^verbatim>\<open>TypeError\<close> in Python 3.
\<close>

fun attempt_loop ::
  "service \<Rightarrow> (nat \<Rightarrow> outcome) \<Rightarrow> request \<Rightarrow> nat list \<Rightarrow> exn option \<Rightarrow> world
     \<Rightarrow> (exn + response) \<times> world" where
  "attempt_loop svc srv rq [] last_exception w =
     (case last_exception of
        None \<Rightarrow> (Inl (TypeError ''exceptions must derive from BaseException''), w)
      | Some e \<Rightarrow> (Inl e, w))"
| "attempt_loop svc srv rq (attempt # rest) last_exception w =
     (case srv (length (attempts w)) of
        Responded r \<Rightarrow>
          if raises_for_status r then
            if status_code r \<ge> 500 then
              attempt_loop svc srv rq rest
                (Some (OllamaConnectionError
                   (''Ollama server error: '' @ str_int (status_code r))))
                (backoff svc attempt (log_attempt rq w))
            else
              (Inl (OllamaConnectionError
                 (''Ollama API error: '' @ str_int (status_code r) @ '' - '' @ resp_text r)),
               log_attempt rq w)
          else (Inr r, log_attempt rq w)
      | RaisedTimeout \<Rightarrow>
          attempt_loop svc srv rq rest
            (Some (OllamaTimeoutError
               (''Request timed out after '' @ str_int (timeout svc) @ '' seconds'')))
            (backoff svc attempt (log_attempt rq w))
      | RaisedConnectionError \<Rightarrow>
          attempt_loop svc srv rq rest
            (Some (OllamaConnectionError
               (''Failed to connect to Ollama at '' @ endpoint svc)))
            (backoff svc attempt (log_attempt rq w))
      | RaisedOther msg \<Rightarrow>
          attempt_loop svc srv rq rest
            (Some (OllamaConnectionError
               (''Unexpected error communicating with Ollama: '' @ msg)))
            (backoff svc attempt (log_attempt rq w)))"

definition build_request :: "service \<Rightarrow> string \<Rightarrow> string \<Rightarrow> kwargs \<Rightarrow> request" where
  "build_request svc method path kw =
     \<lparr> req_method = method,
       req_url = rstrip_slash (endpoint svc) @ ''/'' @ lstrip_slash path,
       req_json = kw_json kw,
       req_timeout = (case kw_timeout kw of None \<Rightarrow> timeout svc | Some t \<Rightarrow> t) \<rparr>"

definition make_request ::
  "service \<Rightarrow> (nat \<Rightarrow> outcome) \<Rightarrow> string \<Rightarrow> string \<Rightarrow> kwargs \<Rightarrow> world
     \<Rightarrow> (exn + response) \<times> world" where
  "make_request svc srv method path kw w =
     attempt_loop svc srv (build_request svc method path kw)
       [0 ..< nat (max_retries svc)] None w"


subsection \<open>The models cache\<close>

text \<open>
  \<^verbatim>\<open>_is_cache_valid\<close>, with the reading of \<^verbatim>\<open>datetime.now()\<close> as \<open>now\<close>. Times are
  in microseconds, the resolution of \<^verbatim>\<open>datetime\<close>; \<^verbatim>\<open>cache_duration\<close> is in seconds.
\<close>

definition is_cache_valid :: "service \<Rightarrow> int \<Rightarrow> bool" where
  "is_cache_valid svc now =
     (case models_cache svc of
        None \<Rightarrow> False
      | Some cache \<Rightarrow>
          (case models_cache_time svc of
             None \<Rightarrow> False
           | Some t \<Rightarrow> now < t + cache_duration svc * 1000000))"

text \<open>
  \<^verbatim>\<open>v / (1024 * 1024)\<close>: the exact quotient that the true division rounds to a
  float. An int whose quotient rounds beyond the largest float raises
  \<^verbatim>\<open>OverflowError\<close>; a str, list, dict or None raises \<^verbatim>\<open>TypeError\<close>.
\<close>

fun true_div_mb :: "json \<Rightarrow> exn + rat" where
  "true_div_mb (JInt n) =
     (if \<bar>n\<bar> \<ge> (2 ^ 1024 - 2 ^ 970) * 2 ^ 20
      then Inl (OverflowError ''integer division result too large for a float'')
      else Inr (of_int n / 2 ^ 20))"
| "true_div_mb (JBool b) = Inr ((if b then 1 else 0) / 2 ^ 20)"
| "true_div_mb (JFloat q) = Inr (q / 2 ^ 20)"
| "true_div_mb v =
     Inl (TypeError (''unsupported operand type(s) for /: '' @ quoted (py_type_name v)
        @ '' and '' @ quoted ''int''))"

text \<open>The dict built for one raw model record in the loop of \<^verbatim>\<open>get_available_models\<close>.\<close>

definition make_model_info :: "json \<Rightarrow> exn + model_info" where
  "make_model_info model =
     (case py_get model ''name'' (JStr []) of Inl e \<Rightarrow> Inl e | Inr nm \<Rightarrow>
      case py_get model ''size'' (JInt 0) of Inl e \<Rightarrow> Inl e | Inr sz \<Rightarrow>
      case py_get model ''modified_at'' (JStr []) of Inl e \<Rightarrow> Inl e | Inr md \<Rightarrow>
      case py_get model ''digest'' (JStr []) of Inl e \<Rightarrow> Inl e | Inr dg \<Rightarrow>
      case py_get model ''size'' JNull of Inl e \<Rightarrow> Inl e | Inr c \<Rightarrow>
        if truthy c then
          (case py_get model ''size'' (JInt 0) of Inl e \<Rightarrow> Inl e | Inr v \<Rightarrow>
           case true_div_mb v of Inl e \<Rightarrow> Inl e | Inr q \<Rightarrow>
             Inr \<lparr> mi_name = nm, mi_size = sz, mi_modified_at = md, mi_digest = dg,
                   mi_size_mb = SizeRound1 q \<rparr>)
        else
          Inr \<lparr> mi_name = nm, mi_size = sz, mi_modified_at = md, mi_digest = dg,
                mi_size_mb = SizeZero \<rparr>)"

text \<open>The loop \<^verbatim>\<open>for model in data.get('models', [])\<close>, appending to \<^verbatim>\<open>models\<close>.\<close>

fun build_models :: "json list \<Rightarrow> model_info list \<Rightarrow> exn + model_info list" where
  "build_models [] models = Inr models"
| "build_models (model # rest) models =
     (case make_model_info model of
        Inl e \<Rightarrow> Inl e
      | Inr mi \<Rightarrow> build_models rest (models @ [mi]))"

definition parse_models :: "response \<Rightarrow> exn + model_info list" where
  "parse_models resp =
     (case json_body resp of
        Inl msg \<Rightarrow> Inl (OtherException msg)
      | Inr data \<Rightarrow>
          (case py_get data ''models'' (JArr []) of
             Inl e \<Rightarrow> Inl e
           | Inr ms \<Rightarrow>
               (case py_iter ms of
                  Inl e \<Rightarrow> Inl e
                | Inr raw \<Rightarrow> build_models raw [])))"

text \<open>
  The handler \<^verbatim>\<open>except Exception as e\<close> of the three public operations: one of the two
  failures of the service is raised again, anything else is wrapped.
\<close>

definition reraise_or_wrap :: "string \<Rightarrow> exn \<Rightarrow> exn" where
  "reraise_or_wrap prefix e =
     (if is_ollama_error e then e else OllamaConnectionError (prefix @ exn_str e))"

definition no_kwargs :: kwargs where
  "no_kwargs = \<lparr> kw_json = None, kw_timeout = None \<rparr>"

text \<open>
  \<^verbatim>\<open>get_available_models\<close>. \<open>now_check\<close> is the clock as \<^verbatim>\<open>_is_cache_valid\<close> reads
  it and \<open>now_store\<close> the clock as the cache update reads it. The result holds the
  returned list or the exception, the service with its cache, and the world.
\<close>

definition get_available_models ::
  "service \<Rightarrow> (nat \<Rightarrow> outcome) \<Rightarrow> bool \<Rightarrow> int \<Rightarrow> int \<Rightarrow> world
     \<Rightarrow> (exn + model_info list) \<times> service \<times> world" where
  "get_available_models svc srv use_cache now_check now_store w =
     (case (if use_cache \<and> is_cache_valid svc now_check then models_cache svc else None) of
        Some cache \<Rightarrow> (Inr cache, svc, w)
      | None \<Rightarrow>
          (case make_request svc srv ''GET'' ''api/tags'' no_kwargs w of
             (Inl e, w') \<Rightarrow>
               (Inl (reraise_or_wrap ''Failed to parse models response: '' e), svc, w')
           | (Inr resp, w') \<Rightarrow>
               (case parse_models resp of
                  Inl e \<Rightarrow>
                    (Inl (reraise_or_wrap ''Failed to parse models response: '' e), svc, w')
                | Inr models \<Rightarrow>
                    (Inr models,
                     svc\<lparr>models_cache := Some models, models_cache_time := Some now_store\<rparr>,
                     w'))))"

text \<open>\<^verbatim>\<open>refresh_models_cache\<close> and \<^verbatim>\<open>clear_models_cache\<close>\<close>

definition refresh_models_cache ::
  "service \<Rightarrow> (nat \<Rightarrow> outcome) \<Rightarrow> int \<Rightarrow> int \<Rightarrow> world
     \<Rightarrow> (exn + model_info list) \<times> service \<times> world" where
  "refresh_models_cache svc srv now_check now_store w =
     get_available_models svc srv False now_check now_store w"

definition clear_models_cache :: "service \<Rightarrow> service" where
  "clear_models_cache svc = svc\<lparr>models_cache := None, models_cache_time := None\<rparr>"

text \<open>
  \<^verbatim>\<open>int(cache_age.total_seconds())\<close>: the whole seconds of a difference in
  microseconds, truncated towards zero (exact below \<open>2 ^ 53\<close> microseconds).
\<close>

definition whole_seconds :: "int \<Rightarrow> int" where
  "whole_seconds d = (if d < 0 then - ((- d) div 1000000) else d div 1000000)"

text \<open>
  \<^verbatim>\<open>get_cache_info\<close>, a dict as the list of its items. \<open>now\<close> is the clock as the age
  reads it, \<open>now_check\<close> as \<^verbatim>\<open>_is_cache_valid\<close> reads it.
\<close>

definition get_cache_info :: "service \<Rightarrow> int \<Rightarrow> int \<Rightarrow> (string \<times> pyval) list" where
  "get_cache_info svc now now_check =
     (case models_cache svc of
        None \<Rightarrow>
          [(''cached'', PBool False), (''cache_time'', PNone), (''cache_age_seconds'', PNone),
           (''cache_valid'', PBool False), (''models_count'', PInt 0)]
      | Some cache \<Rightarrow>
          (case models_cache_time svc of
             None \<Rightarrow>
               [(''cached'', PBool False), (''cache_time'', PNone),
                (''cache_age_seconds'', PNone), (''cache_valid'', PBool False),
                (''models_count'', PInt 0)]
           | Some t \<Rightarrow>
               [(''cached'', PBool True), (''cache_time'', PIsoformat t),
                (''cache_age_seconds'', PInt (whole_seconds (now - t))),
                (''cache_valid'', PBool (is_cache_valid svc now_check)),
                (''models_count'', PInt (int (length cache))),
                (''cache_duration_seconds'', PInt (cache_duration svc))]))"

subsection \<open>The two generation workflows\<close>

text \<open>\<^verbatim>\<open>a or b\<close> on an optional string: \<^verbatim>\<open>None\<close> and the empty string are false.\<close>

definition py_or :: "string option \<Rightarrow> string option \<Rightarrow> string option" where
  "py_or a b = (case a of None \<Rightarrow> b | Some s \<Rightarrow> if s \<noteq> [] then Some s else b)"

text \<open>\<^verbatim>\<open>MetaPromptParameters\<close> and \<^verbatim>\<open>MetaPromptConfig\<close> of \<^verbatim>\<open>backend/prompts_config.py\<close>\<close>

record meta_prompt_parameters =
  mp_temperature :: real
  mp_top_p :: real
  mp_top_k :: int
  mp_repeat_penalty :: real

record meta_prompt_config =
  template :: string
  parameters :: meta_prompt_parameters

definition to_dict :: "meta_prompt_parameters \<Rightarrow> (string \<times> pyval) list" where
  "to_dict ps =
     [(''temperature'', PFloat (mp_temperature ps)), (''top_p'', PFloat (mp_top_p ps)),
      (''top_k'', PInt (mp_top_k ps)), (''repeat_penalty'', PFloat (mp_repeat_penalty ps))]"

text \<open>
  \<^verbatim>\<open>data = response.json(); data.get('response', '').strip()\<close>, shared by the two
  workflows.
\<close>

definition extract_response :: "response \<Rightarrow> exn + string" where
  "extract_response resp =
     (case json_body resp of
        Inl msg \<Rightarrow> Inl (OtherException msg)
      | Inr data \<Rightarrow>
          (case py_get data ''response'' (JStr []) of
             Inl e \<Rightarrow> Inl e
           | Inr v \<Rightarrow> py_strip v))"

text \<open>
  \<^verbatim>\<open>refine_prompt\<close>. \<open>mpc\<close> is what \<^verbatim>\<open>prompts_config.get_meta_prompt_config()\<close> returns
  and \<open>fmt\<close> is \<^verbatim>\<open>str.format\<close> of the template with the objective, which may raise;
  it runs before the \<^verbatim>\<open>try\<close>, so its exception is not wrapped.
\<close>

definition refine_prompt ::
  "config \<Rightarrow> service \<Rightarrow> (nat \<Rightarrow> outcome) \<Rightarrow> meta_prompt_config
     \<Rightarrow> (string \<Rightarrow> string \<Rightarrow> exn + string) \<Rightarrow> string \<Rightarrow> string option \<Rightarrow> world
     \<Rightarrow> (exn + string) \<times> world" where
  "refine_prompt cfg svc srv mpc fmt objective target_model w =
     (let model = py_or target_model (default_model cfg) in
      case fmt (template mpc) objective of
        Inl e \<Rightarrow> (Inl e, w)
      | Inr formatted_prompt \<Rightarrow>
          (case make_request svc srv ''POST'' ''api/generate''
                  \<lparr> kw_json = Some \<lparr> gen_model = model, gen_prompt = formatted_prompt,
                                     gen_stream = False,
                                     gen_options = to_dict (parameters mpc) \<rparr>,
                    kw_timeout = None \<rparr> w of
             (Inl e, w') \<Rightarrow> (Inl (reraise_or_wrap ''Failed to refine prompt: '' e), w')
           | (Inr resp, w') \<Rightarrow>
               (case extract_response resp of
                  Inl e \<Rightarrow> (Inl (reraise_or_wrap ''Failed to refine prompt: '' e), w')
                | Inr refined_prompt \<Rightarrow>
                    if refined_prompt = [] then
                      (Inl (OllamaConnectionError
                         ''Received empty response from Ollama during prompt refinement''), w')
                    else (Inr refined_prompt, w'))))"

text \<open>
  The dict that \<^verbatim>\<open>test_prompt\<close> returns. \<open>Round2 d\<close> stands for the float
  \<^verbatim>\<open>round(d, 2)\<close>, which is not evaluated.
\<close>

datatype exec_time = Round2 real

record test_result =
  tr_response :: string
  tr_execution_time :: exec_time
  tr_model :: "string option"
  tr_temperature :: "real option"
  tr_timeout :: int
  tr_system_prompt :: string
  tr_user_input :: string

definition full_prompt :: "string \<Rightarrow> string \<Rightarrow> string" where
  "full_prompt system_prompt user_input =
     system_prompt @ [CHR 0x0A, CHR 0x0A] @ ''User: '' @ user_input
       @ [CHR 0x0A, CHR 0x0A] @ ''Assistant:''"

text \<open>
  \<^verbatim>\<open>test_prompt\<close>. \<open>start_time\<close> and \<open>end_time\<close> are the two readings of
  \<^verbatim>\<open>time.time()\<close>.
\<close>

definition test_prompt ::
  "config \<Rightarrow> service \<Rightarrow> (nat \<Rightarrow> outcome) \<Rightarrow> string \<Rightarrow> string \<Rightarrow> string option
     \<Rightarrow> real option \<Rightarrow> int option \<Rightarrow> real \<Rightarrow> real \<Rightarrow> world
     \<Rightarrow> (exn + test_result) \<times> world" where
  "test_prompt cfg svc srv system_prompt user_input model_arg temperature_arg timeout_arg
       start_time end_time w =
     (let model = py_or model_arg (default_model cfg);
          temperature = (case temperature_arg of
                           None \<Rightarrow> default_temperature cfg
                         | Some t \<Rightarrow> Some t);
          request_timeout = (case timeout_arg of None \<Rightarrow> timeout svc | Some t \<Rightarrow> t)
      in
      case make_request svc srv ''POST'' ''api/generate''
              \<lparr> kw_json = Some \<lparr> gen_model = model,
                                 gen_prompt = full_prompt system_prompt user_input,
                                 gen_stream = False,
                                 gen_options =
                                   [(''temperature'',
                                     (case temperature of None \<Rightarrow> PNone | Some t \<Rightarrow> PFloat t)),
                                    (''top_p'', PFloat (9 / 10))] \<rparr>,
                kw_timeout = Some request_timeout \<rparr> w of
        (Inl e, w') \<Rightarrow> (Inl (reraise_or_wrap ''Failed to test prompt: '' e), w')
      | (Inr resp, w') \<Rightarrow>
          (case extract_response resp of
             Inl e \<Rightarrow> (Inl (reraise_or_wrap ''Failed to test prompt: '' e), w')
           | Inr ai_response \<Rightarrow>
               if ai_response = [] then
                 (Inl (OllamaConnectionError
                    ''Received empty response from Ollama during prompt testing''), w')
               else
                 (Inr \<lparr> tr_response = ai_response,
                        tr_execution_time = Round2 (end_time - start_time),
                        tr_model = model,
                        tr_temperature = temperature,
                        tr_timeout = request_timeout,
                        tr_system_prompt = system_prompt,
                        tr_user_input = user_input \<rparr>, w')))"

subsection \<open>Concrete services, servers and worlds\<close>

definition svc3 :: service where
  "svc3 = \<lparr> endpoint = ''http://localhost:11434/'', timeout = 30, max_retries = 3,
            cache_duration = 300, models_cache = None, models_cache_time = None \<rparr>"

definition ok_response :: response where
  "ok_response = \<lparr> status_code = 200, resp_text = ''{}'', json_body = Inr (JObj []) \<rparr>"

definition timeouts_then_ok :: "nat \<Rightarrow> nat \<Rightarrow> outcome" where
  "timeouts_then_ok n k = (if k < n then RaisedTimeout else Responded ok_response)"

definition w0 :: world where
  "w0 = \<lparr> attempts = [], sleeps = [] \<rparr>"



definition unreachable_server :: "nat \<Rightarrow> outcome" where
  "unreachable_server k = RaisedConnectionError"

definition cfg_no_default :: config where
  "cfg_no_default = \<lparr> ollama_endpoint = ''http://localhost:11434'', default_model = None,
                      default_temperature = Some (7 / 10) \<rparr>"

definition cfg_llama :: config where
  "cfg_llama = \<lparr> ollama_endpoint = ''http://localhost:11434'', default_model = Some ''llama2'',
                 default_temperature = Some (7 / 10) \<rparr>"

definition hello_response :: response where
  "hello_response = \<lparr> status_code = 200, resp_text = ''{response: Hello}'',
                      json_body = Inr (JObj [(''response'', JStr ''Hello'')]) \<rparr>"

definition hello_server :: "nat \<Rightarrow> outcome" where
  "hello_server k = Responded hello_response"



definition mpc0 :: meta_prompt_config where
  "mpc0 = \<lparr> template = ''Objective: '',
            parameters = \<lparr> mp_temperature = 3 / 10, mp_top_p = 9 / 10, mp_top_k = 0,
                           mp_repeat_penalty = 11 / 10 \<rparr> \<rparr>"

definition append_format :: "string \<Rightarrow> string \<Rightarrow> exn + string" where
  "append_format t objective = Inr (t @ objective)"



definition garbled_response :: response where
  "garbled_response = \<lparr> status_code = 200, resp_text = ''<html>'',
      json_body = Inl ''Expecting value: line 1 column 1 (char 0)'' \<rparr>"

definition garbled_server :: "nat \<Rightarrow> outcome" where
  "garbled_server k = Responded garbled_response"

definition llama_models :: "model_info list" where
  "llama_models =
     [\<lparr> mi_name = JStr ''llama2'', mi_size = JInt 3825819519,
        mi_modified_at = JStr ''2024-01-01T00:00:00Z'', mi_digest = JStr ''78e26419b446'',
        mi_size_mb = SizeRound1 (3825819519 / 2 ^ 20) \<rparr>,
      \<lparr> mi_name = JStr ''empty'', mi_size = JInt 0,
        mi_modified_at = JStr [], mi_digest = JStr [],
        mi_size_mb = SizeZero \<rparr>]"

definition svc3_cached :: service where
  "svc3_cached = svc3\<lparr>models_cache := Some llama_models, models_cache_time := Some 5000000\<rparr>"

definition tags_request :: request where
  "tags_request = \<lparr> req_method = ''GET'', req_url = ''http://localhost:11434/api/tags'',
                    req_json = None, req_timeout = 30 \<rparr>"

definition w_one_fetch :: world where
  "w_one_fetch = \<lparr> attempts = [tags_request], sleeps = [] \<rparr>"

section \<open>Properties\<close>

subsection \<open>The retry loop\<close>

lemma attempt_loop_timeouts_then_success:
  assumes "\<forall>k<n. srv (length (attempts w) + k) = RaisedTimeout"
    and "srv (length (attempts w) + n) = Responded r"
    and "\<not> raises_for_status r"
    and "i + n < m" and "int m \<le> max_retries svc"
  shows "attempt_loop svc srv rq [i ..< m] lst0 w =
     (Inr r, w\<lparr>attempts := attempts w @ replicate (Suc n) rq,
              sleeps := sleeps w @ map (\<lambda>k. 2 ^ k) [i ..< i + n]\<rparr>)"
  using assms
proof (induction n arbitrary: i w lst0)
  case 0
  then have "[i ..< m] = i # [Suc i ..< m]" by (simp add: upt_conv_Cons)
  with 0 show ?case by (simp add: log_attempt_def)
next
  case (Suc n)
  let ?w = "backoff svc i (log_attempt rq w)"
  from Suc.prems have lt: "i < m" by simp
  then have up: "[i ..< m] = i # [Suc i ..< m]" by (simp add: upt_conv_Cons)
  from Suc.prems have bo: "?w = w\<lparr>attempts := attempts w @ [rq], sleeps := sleeps w @ [2 ^ i]\<rparr>"
    by (simp add: backoff_def log_attempt_def)
  have len: "length (attempts ?w) = Suc (length (attempts w))" by (simp add: bo)
  from Suc.prems(1) have first: "srv (length (attempts w)) = RaisedTimeout"
    by (metis add.right_neutral zero_less_Suc)
  have rest: "\<forall>k<n. srv (length (attempts ?w) + k) = RaisedTimeout"
    using Suc.prems(1) by (simp add: len) (metis Suc_less_eq add_Suc_right)
  have succ: "srv (length (attempts ?w) + n) = Responded r"
    using Suc.prems(2) by (simp add: len)
  have "attempt_loop svc srv rq [Suc i ..< m] lst ?w =
     (Inr r, ?w\<lparr>attempts := attempts ?w @ replicate (Suc n) rq,
              sleeps := sleeps ?w @ map (\<lambda>k. 2 ^ k) [Suc i ..< Suc i + n]\<rparr>)" for lst
    using Suc.IH [OF rest succ Suc.prems(3)] Suc.prems(4,5) by simp
  then show ?case
    using first lt by (simp add: up bo upt_conv_Cons replicate_app_Cons_same)
qed

text \<open>
  C1, as amended. For every \<open>N\<close> strictly below \<^verbatim>\<open>max_retries\<close>: when the next \<open>N\<close>
  attempts time out and the attempt after them gets a response that
  \<^verbatim>\<open>raise_for_status\<close> accepts, \<^verbatim>\<open>_make_request\<close> returns that response after
  \<open>N + 1\<close> attempts, and the sleeps it adds are \<open>2^0, 2^1, ..., 2^(N-1)\<close>, in this
  order, so that the total wait is their sum.
\<close>

theorem make_request_timeouts_then_success:
  assumes "int N < max_retries svc"
    and "\<forall>k<N. srv (length (attempts w) + k) = RaisedTimeout"
    and "srv (length (attempts w) + N) = Responded r"
    and "\<not> raises_for_status r"
  shows "\<exists>w'. make_request svc srv method path kw w = (Inr r, w')
           \<and> length (attempts w') = length (attempts w) + N + 1
           \<and> sleeps w' = sleeps w @ map (\<lambda>k. 2 ^ k) [0 ..< N]
           \<and> sum_list (drop (length (sleeps w)) (sleeps w')) = (\<Sum>k<N. 2 ^ k)"
proof -
  from assms(1) have "0 + N < nat (max_retries svc)"
    and "int (nat (max_retries svc)) \<le> max_retries svc"
    by simp_all
  from attempt_loop_timeouts_then_success [OF assms(2,3,4) this]
  have "make_request svc srv method path kw w =
     (Inr r, w\<lparr>attempts := attempts w @ replicate (Suc N) (build_request svc method path kw),
              sleeps := sleeps w @ map (\<lambda>k. 2 ^ k) [0 ..< N]\<rparr>)"
    by (simp add: make_request_def)
  moreover have "sum_list (map (\<lambda>k. 2 ^ k) [0 ..< N]) = (\<Sum>k<N. (2::nat) ^ k)"
    by (simp add: sum_list_sum_nth atLeast0LessThan)
  ultimately show ?thesis by simp
qed

theorem make_request_timeouts_then_success_witness:
  "\<exists>w'. make_request svc3 (timeouts_then_ok 2) ''GET'' ''api/tags'' no_kwargs w0
           = (Inr ok_response, w')
      \<and> length (attempts w') = 3 \<and> sleeps w' = [1, 2]
      \<and> sum_list (sleeps w') = 3"
proof -
  have a: "int 2 < max_retries svc3" by (simp add: svc3_def)
  have b: "\<forall>k<2. timeouts_then_ok 2 (length (attempts w0) + k) = RaisedTimeout"
    by (simp add: timeouts_then_ok_def w0_def)
  have c: "timeouts_then_ok 2 (length (attempts w0) + 2) = Responded ok_response"
    by (simp add: timeouts_then_ok_def)
  have d: "\<not> raises_for_status ok_response"
    by (simp add: raises_for_status_def ok_response_def)
  have e: "[0 ..< 2] = [0, Suc 0]" by (simp add: upt_conv_Cons numeral_2_eq_2)
  have f: "(\<Sum>k<2. (2::nat) ^ k) = 3" by (simp add: numeral_2_eq_2)
  from make_request_timeouts_then_success [OF a b c d, of "''GET''" "''api/tags''" no_kwargs]
  show ?thesis by (simp add: w0_def e f numeral_3_eq_3)
qed

text \<open>
  C1 as stated fails at \<open>N = max_retries = 3\<close>: after three timeouts the fourth
  attempt, which would succeed, is never made; the call raises the timeout failure and
  has slept \<open>1 + 2\<close>, not \<open>1 + 2 + 4\<close>.
\<close>

theorem make_request_exhausted_counterexample:
  "fst (make_request svc3 (timeouts_then_ok 3) ''GET'' ''api/tags'' no_kwargs w0)
      = Inl (OllamaTimeoutError ''Request timed out after 30 seconds'')
   \<and> sleeps (snd (make_request svc3 (timeouts_then_ok 3) ''GET'' ''api/tags'' no_kwargs w0))
      = [1, 2]
   \<and> timeouts_then_ok 3 3 = Responded ok_response"
  by code_simp




lemma attempt_loop_failure_typed:
  assumes "attempt_loop svc srv rq xs lst w = (Inl e, w')"
    and "case lst of None \<Rightarrow> xs \<noteq> [] | Some e0 \<Rightarrow> is_ollama_error e0"
  shows "is_ollama_error e"
  using assms
proof (induction xs arbitrary: lst w)
  case Nil
  then show ?case by (auto split: option.splits)
next
  case (Cons a xs)
  show ?case
  proof (cases "srv (length (attempts w))")
    case (Responded r)
    with Cons.prems(1) show ?thesis
      by (auto split: if_splits dest!: Cons.IH)
  next
    case RaisedTimeout
    with Cons.prems(1) show ?thesis by (auto dest!: Cons.IH)
  next
    case RaisedConnectionError
    with Cons.prems(1) show ?thesis by (auto dest!: Cons.IH)
  next
    case (RaisedOther m)
    with Cons.prems(1) show ?thesis by (auto dest!: Cons.IH)
  qed
qed

text \<open>
  C10. With \<^verbatim>\<open>max_retries\<close> at least 1, every failure of \<^verbatim>\<open>_make_request\<close> is an
  \<^verbatim>\<open>OllamaConnectionError\<close> or an \<^verbatim>\<open>OllamaTimeoutError\<close>. With \<^verbatim>\<open>max_retries = 0\<close>
  the loop makes no attempt and \<^verbatim>\<open>raise last_exception\<close> raises \<^verbatim>\<open>None\<close>, which
  Python turns into a \<^verbatim>\<open>TypeError\<close>: the failure is neither of the two.
\<close>

theorem make_request_failure_typed:
  "(1 \<le> max_retries svc \<longrightarrow>
      (\<forall>e w'. make_request svc srv method path kw w = (Inl e, w') \<longrightarrow> is_ollama_error e))
   \<and> (max_retries svc = 0 \<longrightarrow>
        make_request svc srv method path kw w =
          (Inl (TypeError ''exceptions must derive from BaseException''), w)
        \<and> \<not> is_ollama_error (TypeError ''exceptions must derive from BaseException''))"
proof (intro conjI impI allI)
  fix e w'
  assume "1 \<le> max_retries svc" and "make_request svc srv method path kw w = (Inl e, w')"
  then show "is_ollama_error e"
    using attempt_loop_failure_typed [of svc srv _ "[0 ..< nat (max_retries svc)]" None w e w']
    by (simp add: make_request_def)
next
  assume "max_retries svc = 0"
  then show "make_request svc srv method path kw w =
          (Inl (TypeError ''exceptions must derive from BaseException''), w)"
    by (simp add: make_request_def)
next
  show "\<not> is_ollama_error (TypeError ''exceptions must derive from BaseException'')"
    by simp
qed

theorem make_request_failure_typed_witness:
  "1 \<le> max_retries svc3
   \<and> make_request svc3 unreachable_server ''GET'' ''api/tags'' no_kwargs w0
       = (Inl (OllamaConnectionError ''Failed to connect to Ollama at http://localhost:11434/''),
          snd (make_request svc3 unreachable_server ''GET'' ''api/tags'' no_kwargs w0))
   \<and> is_ollama_error
       (OllamaConnectionError ''Failed to connect to Ollama at http://localhost:11434/'')
   \<and> max_retries (svc3\<lparr>max_retries := 0\<rparr>) = 0
   \<and> make_request (svc3\<lparr>max_retries := 0\<rparr>) unreachable_server ''GET'' ''api/tags'' no_kwargs w0
       = (Inl (TypeError ''exceptions must derive from BaseException''), w0)"
proof -
  have a: "1 \<le> max_retries svc3" by (simp add: svc3_def)
  have b: "make_request svc3 unreachable_server ''GET'' ''api/tags'' no_kwargs w0
       = (Inl (OllamaConnectionError ''Failed to connect to Ollama at http://localhost:11434/''),
          snd (make_request svc3 unreachable_server ''GET'' ''api/tags'' no_kwargs w0))"
    by code_simp
  have c: "max_retries (svc3\<lparr>max_retries := 0\<rparr>) = 0" by simp
  from make_request_failure_typed
         [of svc3 unreachable_server "''GET''" "''api/tags''" no_kwargs w0]
    make_request_failure_typed
         [of "svc3\<lparr>max_retries := 0\<rparr>" unreachable_server "''GET''" "''api/tags''" no_kwargs w0]
    a b c
  show ?thesis by metis
qed

subsection \<open>The requests that an operation sends\<close>

lemma attempts_backoff [simp]: "attempts (backoff svc i w) = attempts w"
  by (simp add: backoff_def)

lemma attempts_log_attempt [simp]: "attempts (log_attempt rq w) = attempts w @ [rq]"
  by (simp add: log_attempt_def)

lemma attempt_loop_attempts:
  "\<exists>n. n \<le> length xs \<and> (xs \<noteq> [] \<longrightarrow> 1 \<le> n)
       \<and> attempts (snd (attempt_loop svc srv rq xs lst w)) = attempts w @ replicate n rq"
proof (induction xs arbitrary: lst w)
  case Nil
  show ?case by (simp split: option.splits)
next
  case (Cons a xs)
  have step: "\<exists>n. n \<le> length (a # xs) \<and> 1 \<le> n
       \<and> attempts (snd (attempt_loop svc srv rq xs l (backoff svc a (log_attempt rq w))))
           = attempts w @ replicate n rq" for l
  proof -
    from Cons.IH [of l "backoff svc a (log_attempt rq w)"]
    obtain n where "n \<le> length xs"
      and "attempts (snd (attempt_loop svc srv rq xs l (backoff svc a (log_attempt rq w))))
           = attempts w @ replicate (Suc n) rq"
      by (auto simp: replicate_app_Cons_same)
    then show ?thesis by (intro exI [of _ "Suc n"]) simp
  qed
  have one: "\<exists>n. n \<le> length (a # xs) \<and> 1 \<le> n
       \<and> attempts (log_attempt rq w) = attempts w @ replicate n rq"
    by (intro exI [of _ 1]) simp
  show ?case
  proof (cases "srv (length (attempts w))")
    case (Responded r)
    then show ?thesis using step one by (simp split: if_splits)
  next
    case RaisedTimeout
    then show ?thesis using step by simp
  next
    case RaisedConnectionError
    then show ?thesis using step by simp
  next
    case (RaisedOther m)
    then show ?thesis using step by simp
  qed
qed

lemma make_request_attempts:
  "\<exists>n. n \<le> nat (max_retries svc) \<and> (1 \<le> max_retries svc \<longrightarrow> 1 \<le> n)
       \<and> attempts (snd (make_request svc srv meth path kw w))
           = attempts w @ replicate n (build_request svc meth path kw)"
  using attempt_loop_attempts [of "[0 ..< nat (max_retries svc)]" svc srv
      "build_request svc meth path kw" None w]
  by (auto simp: make_request_def)


lemma refine_prompt_world:
  "fmt (template mpc) objective = Inr p \<Longrightarrow>
   snd (refine_prompt cfg svc srv mpc fmt objective target_model w) =
   snd (make_request svc srv ''POST'' ''api/generate''
          \<lparr> kw_json = Some \<lparr> gen_model = py_or target_model (default_model cfg),
                             gen_prompt = p, gen_stream = False,
                             gen_options = to_dict (parameters mpc) \<rparr>,
            kw_timeout = None \<rparr> w)"
  by (simp add: refine_prompt_def Let_def split: prod.splits sum.splits)

lemma test_prompt_world:
  "snd (test_prompt cfg svc srv system_prompt user_input model_arg temperature_arg timeout_arg
          start_time end_time w) =
   snd (make_request svc srv ''POST'' ''api/generate''
          \<lparr> kw_json = Some \<lparr> gen_model = py_or model_arg (default_model cfg),
                             gen_prompt = full_prompt system_prompt user_input,
                             gen_stream = False,
                             gen_options =
                               [(''temperature'',
                                 (case (case temperature_arg of
                                          None \<Rightarrow> default_temperature cfg
                                        | Some t \<Rightarrow> Some t) of
                                    None \<Rightarrow> PNone | Some t \<Rightarrow> PFloat t)),
                                (''top_p'', PFloat (9 / 10))] \<rparr>,
            kw_timeout = Some (case timeout_arg of None \<Rightarrow> timeout svc | Some t \<Rightarrow> t) \<rparr> w)"
  by (simp add: test_prompt_def Let_def split: prod.splits sum.splits)

text \<open>
  C3, as amended. \<^verbatim>\<open>refine_prompt\<close> and \<^verbatim>\<open>test_prompt\<close> resolve the model to the one
  the caller gives when it is a non-empty string, and to \<^verbatim>\<open>config.default_model\<close>
  otherwise. Every HTTP attempt of the operation carries this resolved model. Neither
  operation checks that a model is present: with \<^verbatim>\<open>max_retries\<close> at least 1 a
  request is sent whatever the resolved model is, also when it is \<^verbatim>\<open>None\<close>.
\<close>

theorem generation_request_model:
  "(\<forall>p. fmt (template mpc) objective = Inr p \<longrightarrow>
      (\<forall>rq \<in> set (drop (length (attempts w))
           (attempts (snd (refine_prompt cfg svc srv mpc fmt objective target_model w)))).
         map_option gen_model (req_json rq) = Some (py_or target_model (default_model cfg)))
      \<and> (1 \<le> max_retries svc \<longrightarrow>
           length (attempts w)
             < length (attempts (snd (refine_prompt cfg svc srv mpc fmt objective target_model w)))))
   \<and> (\<forall>rq \<in> set (drop (length (attempts w))
           (attempts (snd (test_prompt cfg svc srv system_prompt user_input model_arg
              temperature_arg timeout_arg start_time end_time w)))).
         map_option gen_model (req_json rq) = Some (py_or model_arg (default_model cfg)))
   \<and> (1 \<le> max_retries svc \<longrightarrow>
         length (attempts w)
           < length (attempts (snd (test_prompt cfg svc srv system_prompt user_input model_arg
              temperature_arg timeout_arg start_time end_time w))))
   \<and> (\<forall>a. py_or a (default_model cfg) =
        (case a of
           None \<Rightarrow> default_model cfg
         | Some s \<Rightarrow> if s \<noteq> [] then Some s else default_model cfg))"
proof (intro conjI allI impI)
  fix p assume p: "fmt (template mpc) objective = Inr p"
  let ?kw = "\<lparr> kw_json = Some \<lparr> gen_model = py_or target_model (default_model cfg),
                             gen_prompt = p, gen_stream = False,
                             gen_options = to_dict (parameters mpc) \<rparr>,
            kw_timeout = None \<rparr>"
  have rw: "snd (refine_prompt cfg svc srv mpc fmt objective target_model w)
              = snd (make_request svc srv ''POST'' ''api/generate'' ?kw w)"
    by (rule refine_prompt_world) (rule p)
  from make_request_attempts [of svc srv "''POST''" "''api/generate''" ?kw w]
  obtain n where n: "1 \<le> max_retries svc \<longrightarrow> 1 \<le> n"
    and a: "attempts (snd (refine_prompt cfg svc srv mpc fmt objective target_model w))
              = attempts w @ replicate n (build_request svc ''POST'' ''api/generate'' ?kw)"
    by (auto simp: rw)
  show "\<forall>rq \<in> set (drop (length (attempts w))
           (attempts (snd (refine_prompt cfg svc srv mpc fmt objective target_model w)))).
         map_option gen_model (req_json rq) = Some (py_or target_model (default_model cfg))"
    by (simp add: a build_request_def)
  show "length (attempts w)
      < length (attempts (snd (refine_prompt cfg svc srv mpc fmt objective target_model w)))"
    if "1 \<le> max_retries svc"
    using that n by (simp add: a)
next
  let ?kw = "\<lparr> kw_json = Some \<lparr> gen_model = py_or model_arg (default_model cfg),
                             gen_prompt = full_prompt system_prompt user_input,
                             gen_stream = False,
                             gen_options =
                               [(''temperature'',
                                 (case (case temperature_arg of
                                          None \<Rightarrow> default_temperature cfg
                                        | Some t \<Rightarrow> Some t) of
                                    None \<Rightarrow> PNone | Some t \<Rightarrow> PFloat t)),
                                (''top_p'', PFloat (9 / 10))] \<rparr>,
            kw_timeout = Some (case timeout_arg of None \<Rightarrow> timeout svc | Some t \<Rightarrow> t) \<rparr>"
  from make_request_attempts [of svc srv "''POST''" "''api/generate''" ?kw w]
  obtain n where n: "1 \<le> max_retries svc \<longrightarrow> 1 \<le> n"
    and a: "attempts (snd (test_prompt cfg svc srv system_prompt user_input model_arg
              temperature_arg timeout_arg start_time end_time w))
              = attempts w @ replicate n (build_request svc ''POST'' ''api/generate'' ?kw)"
    by (auto simp: test_prompt_world)
  show "\<forall>rq \<in> set (drop (length (attempts w))
           (attempts (snd (test_prompt cfg svc srv system_prompt user_input model_arg
              temperature_arg timeout_arg start_time end_time w)))).
         map_option gen_model (req_json rq) = Some (py_or model_arg (default_model cfg))"
    by (simp add: a build_request_def)
  show "length (attempts w)
           < length (attempts (snd (test_prompt cfg svc srv system_prompt user_input model_arg
              temperature_arg timeout_arg start_time end_time w)))"
    if "1 \<le> max_retries svc"
    using that n by (simp add: a)
next
  fix a
  show "py_or a (default_model cfg) =
        (case a of
           None \<Rightarrow> default_model cfg
         | Some s \<Rightarrow> if s \<noteq> [] then Some s else default_model cfg)"
    by (simp add: py_or_def)
qed

theorem generation_request_model_witness:
  "append_format (template mpc0) ''obj'' = Inr ''Objective: obj''
   \<and> 1 \<le> max_retries svc3
   \<and> length (attempts w0)
       < length (attempts (snd (refine_prompt cfg_llama svc3 hello_server mpc0 append_format
            ''obj'' None w0)))
   \<and> length (attempts w0)
       < length (attempts (snd (test_prompt cfg_llama svc3 hello_server ''S'' ''U''
            (Some ''mistral'') None None 0 1 w0)))
   \<and> py_or None (default_model cfg_llama) = Some ''llama2''
   \<and> py_or (Some ''mistral'') (default_model cfg_llama) = Some ''mistral''"
proof -
  have c: "append_format (template mpc0) ''obj'' = Inr ''Objective: obj''"
    by (simp add: append_format_def mpc0_def)
  have r: "1 \<le> max_retries svc3" by (simp add: svc3_def)
  from generation_request_model [where fmt = append_format and mpc = mpc0
      and objective = "''obj''" and w = w0 and cfg = cfg_llama and svc = svc3
      and srv = hello_server and target_model = None] c r
  have 1: "length (attempts w0)
       < length (attempts (snd (refine_prompt cfg_llama svc3 hello_server mpc0 append_format
            ''obj'' None w0)))"
    and 2: "py_or None (default_model cfg_llama) = Some ''llama2''"
    by (simp_all add: cfg_llama_def)
  from generation_request_model [where w = w0 and cfg = cfg_llama and svc = svc3
      and srv = hello_server and system_prompt = "''S''" and user_input = "''U''"
      and model_arg = "Some ''mistral''" and temperature_arg = None
      and timeout_arg = None and start_time = 0 and end_time = 1] r
  have 3: "length (attempts w0)
       < length (attempts (snd (test_prompt cfg_llama svc3 hello_server ''S'' ''U''
            (Some ''mistral'') None None 0 1 w0)))"
    and 4: "py_or (Some ''mistral'') (default_model cfg_llama) = Some ''mistral''"
    by simp_all
  from c r 1 2 3 4 show ?thesis by simp
qed

text \<open>
  C3 as stated fails: with no model from the caller and no default configured, both
  operations send a request whose model is \<^verbatim>\<open>None\<close> and return the answer of the
  server.
\<close>

theorem null_model_sent_counterexample:
  "fst (refine_prompt cfg_no_default svc3 hello_server mpc0 append_format ''obj'' None w0)
      = Inr ''Hello''
   \<and> map (\<lambda>rq. map_option gen_model (req_json rq))
        (attempts (snd (refine_prompt cfg_no_default svc3 hello_server mpc0 append_format
           ''obj'' None w0))) = [Some None]
   \<and> map_sum id tr_response
        (fst (test_prompt cfg_no_default svc3 hello_server ''S'' ''U'' None None None 0 1 w0))
      = Inr ''Hello''
   \<and> map (\<lambda>rq. map_option gen_model (req_json rq))
        (attempts (snd (test_prompt cfg_no_default svc3 hello_server ''S'' ''U'' None None None
           0 1 w0))) = [Some None]"
  by code_simp

subsection \<open>The models cache\<close>






text \<open>
  C9. When \<^verbatim>\<open>get_available_models\<close> raises, the exception is one of the two failures
  of the service and the service, with \<^verbatim>\<open>_models_cache\<close> and
  \<^verbatim>\<open>_models_cache_time\<close>, is as it was. A fetch that the cache does not answer raises
  in both cases of the claim: when \<^verbatim>\<open>_make_request\<close> raises, and when
  \<^verbatim>\<open>response.json()\<close> raises.
\<close>

theorem failed_fetch_keeps_cache:
  "(\<forall>e svc' w'. get_available_models svc srv use_cache now_check now_store w = (Inl e, svc', w')
       \<longrightarrow> svc' = svc \<and> is_ollama_error e)
   \<and> (\<not> (use_cache \<and> is_cache_valid svc now_check) \<longrightarrow>
        (\<forall>e w1. make_request svc srv ''GET'' ''api/tags'' no_kwargs w = (Inl e, w1) \<longrightarrow>
           get_available_models svc srv use_cache now_check now_store w
             = (Inl (reraise_or_wrap ''Failed to parse models response: '' e), svc, w1))
        \<and> (\<forall>resp msg w1. make_request svc srv ''GET'' ''api/tags'' no_kwargs w = (Inr resp, w1)
              \<and> json_body resp = Inl msg \<longrightarrow>
           get_available_models svc srv use_cache now_check now_store w
             = (Inl (OllamaConnectionError (''Failed to parse models response: '' @ msg)),
                svc, w1)))"
proof -
  have typed: "is_ollama_error (reraise_or_wrap p e)" for p e
    by (simp add: reraise_or_wrap_def)
  have a: "\<forall>e svc' w'. get_available_models svc srv use_cache now_check now_store w = (Inl e, svc', w')
       \<longrightarrow> svc' = svc \<and> is_ollama_error e"
    by (auto simp: get_available_models_def typed split: prod.splits sum.splits option.splits if_splits)
  have b: "get_available_models svc srv use_cache now_check now_store w
             = (Inl (reraise_or_wrap ''Failed to parse models response: '' e), svc, w1)"
    if "\<not> (use_cache \<and> is_cache_valid svc now_check)"
      and "make_request svc srv ''GET'' ''api/tags'' no_kwargs w = (Inl e, w1)" for e w1
    using that by (auto simp: get_available_models_def)
  have c: "get_available_models svc srv use_cache now_check now_store w
             = (Inl (OllamaConnectionError (''Failed to parse models response: '' @ msg)),
                svc, w1)"
    if "\<not> (use_cache \<and> is_cache_valid svc now_check)"
      and "make_request svc srv ''GET'' ''api/tags'' no_kwargs w = (Inr resp, w1)"
      and "json_body resp = Inl msg" for resp msg w1
    using that by (auto simp: get_available_models_def parse_models_def reraise_or_wrap_def)
  from a b c show ?thesis by blast
qed

theorem failed_fetch_keeps_cache_witness:
  "get_available_models svc3_cached garbled_server False 100000000 100000000 w0
     = (Inl (OllamaConnectionError
          ''Failed to parse models response: Expecting value: line 1 column 1 (char 0)''),
        svc3_cached, w_one_fetch)
   \<and> get_available_models svc3_cached unreachable_server False 100000000 100000000 w0
     = (Inl (OllamaConnectionError ''Failed to connect to Ollama at http://localhost:11434/''),
        svc3_cached,
        snd (make_request svc3_cached unreachable_server ''GET'' ''api/tags'' no_kwargs w0))"
proof -
  have a: "\<not> (False \<and> is_cache_valid svc3_cached 100000000)" by simp
  have b: "make_request svc3_cached garbled_server ''GET'' ''api/tags'' no_kwargs w0
     = (Inr garbled_response, w_one_fetch)" by code_simp
  have c: "json_body garbled_response = Inl ''Expecting value: line 1 column 1 (char 0)''"
    by (simp add: garbled_response_def)
  have d: "make_request svc3_cached unreachable_server ''GET'' ''api/tags'' no_kwargs w0
     = (Inl (OllamaConnectionError ''Failed to connect to Ollama at http://localhost:11434/''),
        snd (make_request svc3_cached unreachable_server ''GET'' ''api/tags'' no_kwargs w0))"
    by code_simp
  have e: "reraise_or_wrap ''Failed to parse models response: ''
       (OllamaConnectionError ''Failed to connect to Ollama at http://localhost:11434/'')
     = OllamaConnectionError ''Failed to connect to Ollama at http://localhost:11434/''"
    by (simp add: reraise_or_wrap_def)
  from failed_fetch_keeps_cache [of svc3_cached garbled_server False 100000000 100000000 w0] a b c
  have 1: "get_available_models svc3_cached garbled_server False 100000000 100000000 w0
     = (Inl (OllamaConnectionError
          (''Failed to parse models response: '' @ ''Expecting value: line 1 column 1 (char 0)'')),
        svc3_cached, w_one_fetch)"
    by blast
  from failed_fetch_keeps_cache [of svc3_cached unreachable_server False 100000000 100000000 w0]
    a d
  have 2: "get_available_models svc3_cached unreachable_server False 100000000 100000000 w0
     = (Inl (reraise_or_wrap ''Failed to parse models response: ''
          (OllamaConnectionError ''Failed to connect to Ollama at http://localhost:11434/'')),
        svc3_cached,
        snd (make_request svc3_cached unreachable_server ''GET'' ''api/tags'' no_kwargs w0))"
    by blast
  from 1 2 e show ?thesis by simp
qed

text \<open>
  C7. The claim fails on a service without a cache: \<^verbatim>\<open>get_cache_info\<close> then returns
  five keys, and \<^verbatim>\<open>cache_duration_seconds\<close>, the time to live, is not one of them.
  With a cache it returns six keys, the time to live among them.
\<close>

theorem get_cache_info_uncached_keys:
  "map fst (get_cache_info svc3 now now_check)
     = [''cached'', ''cache_time'', ''cache_age_seconds'', ''cache_valid'', ''models_count'']
   \<and> map_of (get_cache_info svc3 now now_check) ''cache_duration_seconds'' = None
   \<and> map fst (get_cache_info svc3_cached now now_check)
     = [''cached'', ''cache_time'', ''cache_age_seconds'', ''cache_valid'', ''models_count'',
        ''cache_duration_seconds'']"
  by (simp add: get_cache_info_def svc3_def svc3_cached_def)

subsection \<open>The two generation workflows\<close>

text \<open>
  C5. A temperature that the caller gives is the temperature of the result of
  \<^verbatim>\<open>test_prompt\<close> and of every request it sends, whatever its value and whatever the
  configured default is, so a given \<open>0\<close> stays \<open>0\<close>. The model and the timeout are
  resolved on their own: the model as \<^verbatim>\<open>model or config.default_model\<close>, the timeout
  as the given one or that of the service. When the transport request returns a
  response with a non-empty stripped text, \<^verbatim>\<open>test_prompt\<close> returns the result with
  these values.
\<close>

theorem test_prompt_keeps_given_temperature:
  "(\<forall>res w'. test_prompt cfg svc srv system_prompt user_input model_arg (Some t) timeout_arg
                start_time end_time w = (Inr res, w') \<longrightarrow>
        tr_temperature res = Some t
      \<and> tr_model res = py_or model_arg (default_model cfg)
      \<and> tr_timeout res = (case timeout_arg of None \<Rightarrow> timeout svc | Some x \<Rightarrow> x))
   \<and> (\<forall>rq \<in> set (drop (length (attempts w))
          (attempts (snd (test_prompt cfg svc srv system_prompt user_input model_arg (Some t)
             timeout_arg start_time end_time w)))).
          map_option gen_options (req_json rq)
            = Some [(''temperature'', PFloat t), (''top_p'', PFloat (9 / 10))]
          \<and> req_timeout rq = (case timeout_arg of None \<Rightarrow> timeout svc | Some x \<Rightarrow> x))
   \<and> (\<forall>resp a w'.
          make_request svc srv ''POST'' ''api/generate''
            \<lparr> kw_json = Some \<lparr> gen_model = py_or model_arg (default_model cfg),
                               gen_prompt = full_prompt system_prompt user_input,
                               gen_stream = False,
                               gen_options = [(''temperature'', PFloat t),
                                              (''top_p'', PFloat (9 / 10))] \<rparr>,
              kw_timeout = Some (case timeout_arg of None \<Rightarrow> timeout svc | Some x \<Rightarrow> x) \<rparr>
            w = (Inr resp, w')
          \<and> extract_response resp = Inr a \<and> a \<noteq> [] \<longrightarrow>
          test_prompt cfg svc srv system_prompt user_input model_arg (Some t) timeout_arg
            start_time end_time w =
            (Inr \<lparr> tr_response = a,
                   tr_execution_time = Round2 (end_time - start_time),
                   tr_model = py_or model_arg (default_model cfg),
                   tr_temperature = Some t,
                   tr_timeout = (case timeout_arg of None \<Rightarrow> timeout svc | Some x \<Rightarrow> x),
                   tr_system_prompt = system_prompt,
                   tr_user_input = user_input \<rparr>, w'))"
proof (intro conjI allI impI)
  fix res w'
  assume run: "test_prompt cfg svc srv system_prompt user_input model_arg (Some t) timeout_arg
                start_time end_time w = (Inr res, w')"
  then show "tr_temperature res = Some t"
    by (auto simp: test_prompt_def Let_def split: prod.splits sum.splits if_splits)
  from run show "tr_model res = py_or model_arg (default_model cfg)"
    by (auto simp: test_prompt_def Let_def split: prod.splits sum.splits if_splits)
  from run show "tr_timeout res = (case timeout_arg of None \<Rightarrow> timeout svc | Some x \<Rightarrow> x)"
    by (auto simp: test_prompt_def Let_def split: prod.splits sum.splits if_splits)
next
  let ?kw = "\<lparr> kw_json = Some \<lparr> gen_model = py_or model_arg (default_model cfg),
                             gen_prompt = full_prompt system_prompt user_input,
                             gen_stream = False,
                             gen_options = [(''temperature'', PFloat t),
                                (''top_p'', PFloat (9 / 10))] \<rparr>,
            kw_timeout = Some (case timeout_arg of None \<Rightarrow> timeout svc | Some t \<Rightarrow> t) \<rparr>"
  let ?w' = "snd (test_prompt cfg svc srv system_prompt user_input model_arg (Some t)
             timeout_arg start_time end_time w)"
  have "?w' = snd (make_request svc srv ''POST'' ''api/generate'' ?kw w)"
    by (simp add: test_prompt_world)
  with make_request_attempts [of svc srv "''POST''" "''api/generate''" ?kw w]
  obtain n where sent: "attempts ?w'
      = attempts w @ replicate n (build_request svc ''POST'' ''api/generate'' ?kw)"
    by auto
  show "\<forall>rq \<in> set (drop (length (attempts w)) (attempts ?w')).
          map_option gen_options (req_json rq)
            = Some [(''temperature'', PFloat t), (''top_p'', PFloat (9 / 10))]
          \<and> req_timeout rq = (case timeout_arg of None \<Rightarrow> timeout svc | Some x \<Rightarrow> x)"
    by (simp add: sent build_request_def)
next
  fix resp a w'
  assume "make_request svc srv ''POST'' ''api/generate''
            \<lparr> kw_json = Some \<lparr> gen_model = py_or model_arg (default_model cfg),
                               gen_prompt = full_prompt system_prompt user_input,
                               gen_stream = False,
                               gen_options = [(''temperature'', PFloat t),
                                              (''top_p'', PFloat (9 / 10))] \<rparr>,
              kw_timeout = Some (case timeout_arg of None \<Rightarrow> timeout svc | Some x \<Rightarrow> x) \<rparr>
            w = (Inr resp, w')
          \<and> extract_response resp = Inr a \<and> a \<noteq> []"
  then show "test_prompt cfg svc srv system_prompt user_input model_arg (Some t) timeout_arg
            start_time end_time w =
            (Inr \<lparr> tr_response = a,
                   tr_execution_time = Round2 (end_time - start_time),
                   tr_model = py_or model_arg (default_model cfg),
                   tr_temperature = Some t,
                   tr_timeout = (case timeout_arg of None \<Rightarrow> timeout svc | Some x \<Rightarrow> x),
                   tr_system_prompt = system_prompt,
                   tr_user_input = user_input \<rparr>, w')"
    by (simp add: test_prompt_def Let_def)
qed

theorem test_prompt_keeps_given_temperature_witness:
  "default_temperature cfg_llama = Some (7 / 10)
   \<and> (\<exists>res w'. test_prompt cfg_llama svc3 hello_server ''S'' ''U'' None (Some 0) None 0 1 w0
                  = (Inr res, w')
         \<and> tr_temperature res = Some 0 \<and> tr_response res = ''Hello'')"
proof -
  let ?run = "test_prompt cfg_llama svc3 hello_server ''S'' ''U'' None (Some 0) None 0 1 w0"
  have ev: "?run = (Inr (projr (fst ?run)), snd ?run)" by code_simp
  have rs: "tr_response (projr (fst ?run)) = ''Hello''" by code_simp
  from test_prompt_keeps_given_temperature [where cfg = cfg_llama and svc = svc3
      and srv = hello_server and system_prompt = "''S''" and user_input = "''U''"
      and model_arg = None and t = 0 and timeout_arg = None and start_time = 0
      and end_time = 1 and w = w0] ev
  have "tr_temperature (projr (fst ?run)) = Some 0" by blast
  with ev rs show ?thesis by (auto simp: cfg_llama_def)
qed




end
